theory Spec2Isabelle
  imports Main "HOL-Library.Word"
begin

section \<open>Exceptions, calls and the state of a server\<close>

text \<open>
  C++ exceptions are values. \<open>socket_server.cpp\<close> tells two kinds apart:
  \<open>CoroutineExitException\<close> (the cooperative-cancellation signal) and everything
  else (\<open>catch (...)\<close>), here \<open>OtherException\<close> with a tag.
\<close>

datatype exn = CoroutineExitException | OtherException nat

text \<open>A \<open>QSharedPointer<SocketLike>\<close> is the identity of a connection; the null
  pointer is \<open>None\<close>.\<close>

type_synonym request = nat

datatype BindMode = ReuseAddressHint | DefaultForPlatform

text \<open>
  The trace of what the server does, in program order: every call of a virtual member,
  of the listening socket, of the two events and of the coroutine group appends one entry.
\<close>

datatype call =
    Socket_bind string "16 word" BindMode
  | Socket_listen int
  | Socket_close
  | Started_set | Started_clear | Stopped_set | Stopped_clear
  | Call_getRequest
  | Call_verifyRequest request
  | Call_processRequest request
  | Call_handleError request
  | Call_shutdownRequest request
  | Call_closeRequest request
  | Call_serviceActions
  | Spawn request
  | SpawnWithName string
  | Call_setup | Call_handle | Call_finish

text \<open>
  A computation on a state \<open>'s\<close> either returns a value (\<open>Inr\<close>) or throws
  (\<open>Inl\<close>), and leaves a state behind in both cases.
\<close>

type_synonym ('a, 's) prog = "'s \<Rightarrow> (exn + 'a) \<times> 's"

definition ret :: "'a \<Rightarrow> ('a, 's) prog" where
  "ret x s = (Inr x, s)"

definition bnd :: "('a, 's) prog \<Rightarrow> ('a \<Rightarrow> ('b, 's) prog) \<Rightarrow> ('b, 's) prog" where
  "bnd m f s = (case m s of (Inl e, s') \<Rightarrow> (Inl e, s') | (Inr x, s') \<Rightarrow> f x s')"

definition try_catch :: "('a, 's) prog \<Rightarrow> (exn \<Rightarrow> ('a, 's) prog) \<Rightarrow> ('a, 's) prog" where
  "try_catch m h s = (case m s of (Inl e, s') \<Rightarrow> h e s' | (Inr x, s') \<Rightarrow> (Inr x, s'))"

text \<open>
  Whatever the overridable members and the sockets act on (the connections, the
  network, the fields of a subclass) is a state \<open>'u\<close> of its own. The server's trace
  and \<open>'u\<close> together are what a member function of the file runs on.
\<close>

record 'u traced =
  calls :: "call list"
  world :: 'u

text \<open>Calling a virtual member: the call is recorded, then the member runs on \<open>'u\<close>.\<close>

definition invoke :: "call \<Rightarrow> ('a, 'u) prog \<Rightarrow> ('a, ('u, 'z) traced_scheme) prog" where
  "invoke c f s =
     (case f (world s) of (r, u') \<Rightarrow> (r, s\<lparr>calls := calls s @ [c], world := u'\<rparr>))"

text \<open>
  The collaborators declared in headers outside the two source files: the listening
  \<open>Socket\<close> (\<open>bind\<close>, \<open>listen\<close>, \<open>accept\<close>, \<open>close\<close>), \<open>SocketLike::close\<close> of a
  connection and \<open>SslSocket::handshake\<close>. They are parameters. By their signatures they
  report failure through the value they return.
\<close>

record 'u collaborators =
  socket_bind :: "string \<Rightarrow> 16 word \<Rightarrow> BindMode \<Rightarrow> 'u \<Rightarrow> bool \<times> 'u"
  socket_listen :: "int \<Rightarrow> 'u \<Rightarrow> bool \<times> 'u"
  socket_accept :: "'u \<Rightarrow> request option \<times> 'u"
  socket_close :: "'u \<Rightarrow> 'u"
  request_close :: "request \<Rightarrow> 'u \<Rightarrow> 'u"
  ssl_handshake :: "request \<Rightarrow> 'u \<Rightarrow> bool \<times> 'u"

text \<open>The virtual members of \<open>BaseStreamServer\<close> that the accept loop and the
  connection tasks call through \<open>q\<close>. A subclass may override each, and each may throw.\<close>

record 'u vtable =
  getRequest :: "(request option, 'u) prog"
  verifyRequest :: "request \<Rightarrow> (bool, 'u) prog"
  processRequest :: "request \<Rightarrow> (unit, 'u) prog"
  handleError :: "request \<Rightarrow> (unit, 'u) prog"
  shutdownRequest :: "request \<Rightarrow> (unit, 'u) prog"
  closeRequest :: "request \<Rightarrow> (unit, 'u) prog"
  serviceActions :: "(bool, 'u) prog"

text \<open>The members as \<open>BaseStreamServer\<close> itself defines them (lines 227 to 270).\<close>

definition BaseStreamServer_getRequest :: "'u collaborators \<Rightarrow> (request option, 'u) prog" where
  "BaseStreamServer_getRequest sock u =
     (case socket_accept sock u of
        (Some request, u') \<Rightarrow> (Inr (Some request), u')
      | (None, u') \<Rightarrow> (Inr None, u'))"

definition BaseStreamServer :: "'u collaborators \<Rightarrow> 'u vtable" where
  "BaseStreamServer sock =
     \<lparr> getRequest = BaseStreamServer_getRequest sock,
       verifyRequest = (\<lambda>_. ret True),
       processRequest = (\<lambda>_. ret ()),
       handleError = (\<lambda>_. ret ()),
       shutdownRequest = (\<lambda>_. ret ()),
       closeRequest = (\<lambda>request u. (Inr (), request_close sock request u)),
       serviceActions = ret True \<rparr>"

text \<open>The tasks a server puts into its coroutine group.\<close>

datatype task = Serve | HandleRequest request

text \<open>
  \<open>BaseStreamServerPrivate\<close> with the two events of \<open>BaseStreamServer\<close>. An
  \<open>Event\<close> is its flag; \<open>operations\<close> lists the tasks of the \<open>CoroutineGroup\<close>
  with their names.
\<close>

record 'u server = "'u traced" +
  serverAddress :: string
  serverPort :: "16 word"
  requestQueueSize :: int
  allowReuseAddress :: bool
  started :: bool
  stopped :: bool
  operations :: "(string option \<times> task) list"

section \<open>The connection task\<close>

text \<open>\<open>BaseStreamServerPrivate::handleRequest\<close>, lines 149 to 162.\<close>

definition handleRequest :: "'u vtable \<Rightarrow> request \<Rightarrow> (unit, ('u, 'z) traced_scheme) prog" where
  "handleRequest q request =
     try_catch (invoke (Call_processRequest request) (processRequest q request))
       (\<lambda>e. case e of
          CoroutineExitException \<Rightarrow>
            bnd (invoke (Call_shutdownRequest request) (shutdownRequest q request))
              (\<lambda>_. invoke (Call_closeRequest request) (closeRequest q request))
        | OtherException _ \<Rightarrow>
            bnd (invoke (Call_handleError request) (handleError q request))
              (\<lambda>_. bnd (invoke (Call_shutdownRequest request) (shutdownRequest q request))
                (\<lambda>_. invoke (Call_closeRequest request) (closeRequest q request))))"

section \<open>Events and the coroutine group\<close>

text \<open>Modelled from the spec: \<open>Event\<close> (its source is not among the files) is a flag
  with \<open>set()\<close>, \<open>clear()\<close> and \<open>isSet()\<close>. Each call on \<open>started\<close> and
  \<open>stopped\<close> is recorded in the trace.\<close>

definition started_set :: "'u server \<Rightarrow> 'u server" where
  "started_set s = s\<lparr>calls := calls s @ [Started_set], started := True\<rparr>"

text \<open>Modelled from the spec: \<open>started->clear()\<close> on an \<open>Event\<close>, whose source is not among the
  files.\<close>

definition started_clear :: "'u server \<Rightarrow> 'u server" where
  "started_clear s = s\<lparr>calls := calls s @ [Started_clear], started := False\<rparr>"

text \<open>Modelled from the spec: \<open>stopped->set()\<close> on an \<open>Event\<close>, whose source is not among the
  files.\<close>

definition stopped_set :: "'u server \<Rightarrow> 'u server" where
  "stopped_set s = s\<lparr>calls := calls s @ [Stopped_set], stopped := True\<rparr>"

text \<open>Modelled from the spec: \<open>stopped->clear()\<close> on an \<open>Event\<close>, whose source is not among the
  files.\<close>

definition stopped_clear :: "'u server \<Rightarrow> 'u server" where
  "stopped_clear s = s\<lparr>calls := calls s @ [Stopped_clear], stopped := False\<rparr>"

text \<open>Modelled from the spec: \<open>CoroutineGroup::has(name)\<close> (its source is not among the
  files) tests whether a task is registered under the name.\<close>

definition has :: "(string option \<times> task) list \<Rightarrow> string \<Rightarrow> bool" where
  "has tasks name = list_ex (\<lambda>(n, t). n = Some name) tasks"

text \<open>Modelled from the spec: \<open>CoroutineGroup::spawn(fn)\<close> (its source is not among the
  files) adds an anonymous task to the group.\<close>

definition spawn :: "request \<Rightarrow> 'u server \<Rightarrow> 'u server" where
  "spawn request s =
     s\<lparr>calls := calls s @ [Spawn request],
       operations := operations s @ [(None, HandleRequest request)]\<rparr>"

text \<open>Modelled from the spec: \<open>CoroutineGroup::spawnWithName(name, fn)\<close> (its source is
  not among the files) is a no-op if a task with that name is already registered, and
  registers the task under the name otherwise.\<close>

definition spawnWithName :: "string \<Rightarrow> task \<Rightarrow> 'u server \<Rightarrow> 'u server" where
  "spawnWithName name t s =
     s\<lparr>calls := calls s @ [SpawnWithName name],
       operations := (if has (operations s) name then operations s
                      else operations s @ [(Some name, t)])\<rparr>"

section \<open>Construction, bind, listen, close\<close>

text \<open>The constructors (lines 11 to 18 and 36 to 41): backlog 100, address reuse on,
  \<open>started\<close> clear, \<open>stopped\<close> set, an empty group.\<close>

definition BaseStreamServer_new :: "string \<Rightarrow> 16 word \<Rightarrow> 'u \<Rightarrow> 'u server" where
  "BaseStreamServer_new address port u =
     \<lparr> calls = [], world = u, serverAddress = address, serverPort = port,
       requestQueueSize = 100, allowReuseAddress = True,
       started = False, stopped = True, operations = [] \<rparr>"

definition serverBind :: "'u collaborators \<Rightarrow> 'u server \<Rightarrow> bool \<times> 'u server" where
  "serverBind sock s =
     (let mode = (if allowReuseAddress s then ReuseAddressHint else DefaultForPlatform) in
      case socket_bind sock (serverAddress s) (serverPort s) mode (world s) of
        (ok, u') \<Rightarrow>
          (ok, s\<lparr>calls := calls s @ [Socket_bind (serverAddress s) (serverPort s) mode],
                 world := u'\<rparr>))"

definition serverActivate :: "'u collaborators \<Rightarrow> 'u server \<Rightarrow> bool \<times> 'u server" where
  "serverActivate sock s =
     (case socket_listen sock (requestQueueSize s) (world s) of
        (ok, u') \<Rightarrow> (ok, s\<lparr>calls := calls s @ [Socket_listen (requestQueueSize s)], world := u'\<rparr>))"

definition serverClose :: "'u collaborators \<Rightarrow> 'u server \<Rightarrow> 'u server" where
  "serverClose sock s = s\<lparr>calls := calls s @ [Socket_close], world := socket_close sock (world s)\<rparr>"

section \<open>The accept loop\<close>

text \<open>
  One pass through the body of \<open>while (true)\<close> in
  \<open>BaseStreamServerPrivate::serveForever\<close> (lines 127 to 141): it ends in \<open>break\<close>,
  in the next pass, or in an exception of a member it called.
\<close>

datatype loop_exit = Break | Next_iteration

definition accept_iteration :: "'u vtable \<Rightarrow> (loop_exit, 'u server) prog" where
  "accept_iteration q =
     bnd (invoke Call_getRequest (getRequest q)) (\<lambda>request.
       case request of
         None \<Rightarrow> ret Break
       | Some r \<Rightarrow>
           bnd (invoke (Call_verifyRequest r) (verifyRequest q r)) (\<lambda>ok.
             bnd (if ok then (\<lambda>s. (Inr (), spawn r s))
                  else bnd (invoke (Call_shutdownRequest r) (shutdownRequest q r))
                         (\<lambda>_. invoke (Call_closeRequest r) (closeRequest q r)))
               (\<lambda>_. bnd (invoke Call_serviceActions (serviceActions q))
                  (\<lambda>go_on. ret (if \<not> go_on then Break else Next_iteration)))))"

text \<open>
  The loop may run forever, so it gets a budget of passes. \<open>None\<close> is a loop that is
  still running when the budget is spent; the state is the one reached by then.
\<close>

fun accept_loop :: "nat \<Rightarrow> 'u vtable \<Rightarrow> 'u server \<Rightarrow> (exn + unit) option \<times> 'u server" where
  "accept_loop 0 q s = (None, s)"
| "accept_loop (Suc n) q s =
     (case accept_iteration q s of
        (Inl e, s') \<Rightarrow> (Some (Inl e), s')
      | (Inr Break, s') \<Rightarrow> (Some (Inr ()), s')
      | (Inr Next_iteration, s') \<Rightarrow> accept_loop n q s')"

text \<open>\<open>BaseStreamServerPrivate::serveForever\<close>, lines 121 to 146. An exception of a
  member called in the loop leaves the function at once.\<close>

definition Private_serveForever ::
  "nat \<Rightarrow> 'u vtable \<Rightarrow> 'u collaborators \<Rightarrow> 'u server \<Rightarrow> (exn + unit) option \<times> 'u server" where
  "Private_serveForever n q sock s =
     (case accept_loop n q (stopped_clear (started_set s)) of
        (Some (Inr _), s') \<Rightarrow>
          (Some (Inr ()), stopped_set (started_clear (serverClose sock s')))
      | (Some (Inl e), s') \<Rightarrow> (Some (Inl e), s')
      | (None, s') \<Rightarrow> (None, s'))"

text \<open>\<open>BaseStreamServer::serveForever\<close>, lines 165 to 178.\<close>

definition serveForever ::
  "nat \<Rightarrow> 'u vtable \<Rightarrow> 'u collaborators \<Rightarrow> 'u server \<Rightarrow> (exn + bool) option \<times> 'u server" where
  "serveForever n q sock s =
     (case serverBind sock s of
        (False, s1) \<Rightarrow> (Some (Inr False), serverClose sock s1)
      | (True, s1) \<Rightarrow>
          (case serverActivate sock s1 of
             (False, s2) \<Rightarrow> (Some (Inr False), serverClose sock s2)
           | (True, s2) \<Rightarrow>
               (case Private_serveForever n q sock s2 of
                  (Some (Inr _), s3) \<Rightarrow> (Some (Inr True), s3)
                | (Some (Inl e), s3) \<Rightarrow> (Some (Inl e), s3)
                | (None, s3) \<Rightarrow> (None, s3))))"

text \<open>\<open>BaseStreamServer::start\<close>, lines 181 to 198. The task it spawns is only
  registered here; its body is \<open>Private_serveForever\<close>.\<close>

definition start :: "'u collaborators \<Rightarrow> 'u server \<Rightarrow> bool \<times> 'u server" where
  "start sock s =
     (if started s \<or> has (operations s) ''serve'' then (True, s)
      else
        (case serverBind sock s of
           (False, s1) \<Rightarrow> (False, serverClose sock s1)
         | (True, s1) \<Rightarrow>
             (case serverActivate sock s1 of
                (False, s2) \<Rightarrow> (False, serverClose sock s2)
              | (True, s2) \<Rightarrow> (True, spawnWithName ''serve'' Serve s2))))"

text \<open>\<open>BaseStreamServer::stop\<close>, lines 201 to 204.\<close>

definition stop :: "'u collaborators \<Rightarrow> 'u server \<Rightarrow> 'u server" where
  "stop sock s = serverClose sock s"

section \<open>The secure server\<close>

text \<open>
  \<open>BaseSslStreamServer::getRequest\<close>, lines 312 to 327. The loop has no bound: the
  result is \<open>None\<close> when it never returns, \<open>Some (None, u)\<close> when it returns the null
  pointer and \<open>Some (Some r, u)\<close> when it returns the connection \<open>r\<close>.
\<close>

partial_function (option) BaseSslStreamServer_getRequest ::
  "'u collaborators \<Rightarrow> 'u \<Rightarrow> (request option \<times> 'u) option" where
  "BaseSslStreamServer_getRequest sock u =
     (case socket_accept sock u of
        (request, u1) \<Rightarrow>
          (case request of
             Some r \<Rightarrow>
               (case ssl_handshake sock r u1 of
                  (ok, u2) \<Rightarrow>
                    if \<not> ok then BaseSslStreamServer_getRequest sock u2
                    else Some (Some r, u2))
           | None \<Rightarrow> Some (None, u1)))"

section \<open>The request handler\<close>

text \<open>The virtual members of \<open>BaseRequestHandler\<close>, and the ones the class itself
  defines (lines 363 to 378).\<close>

record 'u handler =
  setup_rh :: "(unit, 'u) prog"
  handle_rh :: "(unit, 'u) prog"
  finish_rh :: "(unit, 'u) prog"

definition BaseRequestHandler :: "'u collaborators \<Rightarrow> request \<Rightarrow> 'u handler" where
  "BaseRequestHandler sock request =
     \<lparr> setup_rh = ret (), handle_rh = ret (),
       finish_rh = (\<lambda>u. (Inr (), request_close sock request u)) \<rparr>"

text \<open>\<open>BaseRequestHandler::run\<close>, lines 351 to 360.\<close>

definition run :: "'u handler \<Rightarrow> (unit, ('u, 'z) traced_scheme) prog" where
  "run h =
     bnd (invoke Call_setup (setup_rh h)) (\<lambda>_.
       try_catch
         (bnd (invoke Call_handle (handle_rh h)) (\<lambda>_. invoke Call_finish (finish_rh h)))
         (\<lambda>_. invoke Call_finish (finish_rh h)))"

section \<open>Random bytes\<close>

text \<open>
  \<open>random.cpp\<close>. A \<open>QByteArray\<close> is its bytes. \<open>QByteArray::resize\<close> (Qt) sets the
  size, taking a negative one as 0, and does not initialise the bytes it adds: what
  they hold is the parameter \<open>fresh\<close>. \<open>RAND_bytes(buf, num)\<close> (OpenSSL) returns a
  status and stores up to \<open>num\<close> bytes; both are given by the parameter \<open>RAND_bytes\<close>.
\<close>

type_synonym QByteArray = "8 word list"

record generator =
  fresh :: "nat \<Rightarrow> 8 word"
  RAND_bytes :: "nat \<Rightarrow> int \<times> 8 word list"

definition resize :: "(nat \<Rightarrow> 8 word) \<Rightarrow> QByteArray \<Rightarrow> int \<Rightarrow> QByteArray" where
  "resize junk b new_size =
     (let n = nat (max 0 new_size) in take n b @ map junk [length b ..< n])"

text \<open>Storing bytes through \<open>b.data()\<close> overwrites the front of the array.\<close>

definition store :: "8 word list \<Rightarrow> QByteArray \<Rightarrow> QByteArray" where
  "store bytes b = take (length b) bytes @ drop (length bytes) b"

definition randomBytes :: "generator \<Rightarrow> 32 word \<Rightarrow> QByteArray" where
  "randomBytes g i =
     (let b = [];
          b = resize (fresh g) b (sint i);
          (status, bytes) = RAND_bytes g (nat (sint i))
      in store (take (nat (sint i)) bytes) b)"

section \<open>A network for the examples\<close>

text \<open>
  A small world to run the definitions in: whether \<open>bind\<close> and \<open>listen\<close> succeed,
  what the next calls of \<open>accept\<close> return (nothing more once the list is used up),
  the connections whose handshake fails, the connections closed so far and how often
  the listening socket was closed.
\<close>

record net =
  bind_ok :: bool
  listen_ok :: bool
  backlog :: "request option list"
  bad_handshake :: "request list"
  closed :: "request list"
  listening_closed :: nat

definition loopback :: "net collaborators" where
  "loopback =
     \<lparr> socket_bind = (\<lambda>address port mode u. (bind_ok u, u)),
       socket_listen = (\<lambda>queue_size u. (listen_ok u, u)),
       socket_accept = (\<lambda>u. case backlog u of [] \<Rightarrow> (None, u)
                              | x # xs \<Rightarrow> (x, u\<lparr>backlog := xs\<rparr>)),
       socket_close = (\<lambda>u. u\<lparr>listening_closed := Suc (listening_closed u)\<rparr>),
       request_close = (\<lambda>request u. u\<lparr>closed := closed u @ [request]\<rparr>),
       ssl_handshake = (\<lambda>request u. (request \<notin> set (bad_handshake u), u)) \<rparr>"

definition quiet :: net where
  "quiet = \<lparr> bind_ok = True, listen_ok = True, backlog = [], bad_handshake = [],
             closed = [], listening_closed = 0 \<rparr>"

text \<open>Servers that override \<open>processRequest\<close>: one is cancelled inside it, one fails
  inside it.\<close>

definition cancelled_in_process :: "net vtable" where
  "cancelled_in_process =
     (BaseStreamServer loopback)\<lparr>processRequest := (\<lambda>request u. (Inl CoroutineExitException, u))\<rparr>"

definition failing_in_process :: "net vtable" where
  "failing_in_process =
     (BaseStreamServer loopback)\<lparr>processRequest := (\<lambda>request u. (Inl (OtherException 1), u))\<rparr>"


text \<open>A server that admits no connection.\<close>

definition rejecting :: "net vtable" where
  "rejecting = (BaseStreamServer loopback)\<lparr>verifyRequest := (\<lambda>request. ret False)\<rparr>"

text \<open>A handler whose \<open>handle\<close> fails.\<close>

definition failing_handler :: "request \<Rightarrow> net handler" where
  "failing_handler request =
     (BaseRequestHandler loopback request)\<lparr>handle_rh := (\<lambda>u. (Inl (OtherException 2), u))\<rparr>"

definition fresh_server :: "'u \<Rightarrow> 'u server" where
  "fresh_server u = BaseStreamServer_new ''127.0.0.1'' 8080 u"

text \<open>A generator that reports failure and stores nothing.\<close>

definition broken_generator :: generator where
  "broken_generator = \<lparr> fresh = (\<lambda>k. 0xAA), RAND_bytes = (\<lambda>num. (0, [])) \<rparr>"

section \<open>Properties of the connection task\<close>

lemmas examples = fresh_server_def BaseStreamServer_new_def quiet_def loopback_def
  BaseStreamServer_def BaseStreamServer_getRequest_def ret_def
  cancelled_in_process_def failing_in_process_def rejecting_def failing_handler_def
  BaseRequestHandler_def

lemma handleRequest_returned:
  "processRequest q request (world s) = (Inr (), u1) \<Longrightarrow>
   handleRequest q request s =
     (Inr (), s\<lparr>calls := calls s @ [Call_processRequest request], world := u1\<rparr>)"
  by (simp add: handleRequest_def try_catch_def invoke_def)

lemma handleRequest_cancelled:
  "processRequest q request (world s) = (Inl CoroutineExitException, u1) \<Longrightarrow>
   shutdownRequest q request u1 = (Inr (), u2) \<Longrightarrow>
   closeRequest q request u2 = (Inr (), u3) \<Longrightarrow>
   handleRequest q request s =
     (Inr (), s\<lparr>calls := calls s @ [Call_processRequest request, Call_shutdownRequest request,
                                  Call_closeRequest request], world := u3\<rparr>)"
  by (simp add: handleRequest_def try_catch_def bnd_def invoke_def)

lemma handleRequest_failed:
  "processRequest q request (world s) = (Inl (OtherException k), u1) \<Longrightarrow>
   handleError q request u1 = (Inr (), u2) \<Longrightarrow>
   shutdownRequest q request u2 = (Inr (), u3) \<Longrightarrow>
   closeRequest q request u3 = (Inr (), u4) \<Longrightarrow>
   handleRequest q request s =
     (Inr (), s\<lparr>calls := calls s @ [Call_processRequest request, Call_handleError request,
                                  Call_shutdownRequest request, Call_closeRequest request],
               world := u4\<rparr>)"
  by (simp add: handleRequest_def try_catch_def bnd_def invoke_def)

text \<open>
  C1, as the code has it. When \<open>processRequest\<close> throws the cancellation signal,
  \<open>handleRequest\<close> calls \<open>shutdownRequest\<close>, then \<open>closeRequest\<close> on the
  connection (and not \<open>handleError\<close>), and then returns normally: the cancellation is
  absorbed in \<open>handleRequest\<close>, it is not thrown again. The two members called for the
  cleanup are taken to return.
\<close>

theorem handleRequest_cancellation_absorbed:
  assumes "processRequest q request (world s) = (Inl CoroutineExitException, u1)"
    and "shutdownRequest q request u1 = (Inr (), u2)"
    and "closeRequest q request u2 = (Inr (), u3)"
  shows "handleRequest q request s =
           (Inr (), s\<lparr>calls := calls s @ [Call_processRequest request,
                                        Call_shutdownRequest request, Call_closeRequest request],
                     world := u3\<rparr>)"
  using assms by (rule handleRequest_cancelled)

theorem handleRequest_cancellation_absorbed_witness:
  "processRequest cancelled_in_process 7 quiet = (Inl CoroutineExitException, quiet) \<and>
   handleRequest cancelled_in_process 7 (fresh_server quiet) =
     (Inr (), (fresh_server quiet)\<lparr>calls := [Call_processRequest 7, Call_shutdownRequest 7,
         Call_closeRequest 7], world := quiet\<lparr>closed := [7]\<rparr>\<rparr>)"
proof -
  have thrown: "processRequest cancelled_in_process 7 (world (fresh_server quiet)) =
      (Inl CoroutineExitException, quiet)"
    and shut: "shutdownRequest cancelled_in_process 7 quiet = (Inr (), quiet)"
    and close: "closeRequest cancelled_in_process 7 quiet = (Inr (), quiet\<lparr>closed := [7]\<rparr>)"
    by (simp_all add: examples)
  from handleRequest_cancellation_absorbed [OF thrown shut close] show ?thesis
    by (simp add: examples)
qed

text \<open>
  C1 as stated fails: a server whose \<open>processRequest\<close> throws
  \<open>CoroutineExitException\<close> on connection 7 has a \<open>handleRequest\<close> that returns
  normally, so nothing is propagated out of the task body.
\<close>

theorem handleRequest_cancellation_not_propagated:
  "processRequest cancelled_in_process 7 quiet = (Inl CoroutineExitException, quiet) \<and>
   fst (handleRequest cancelled_in_process 7 (fresh_server quiet)) = Inr () \<and>
   fst (handleRequest cancelled_in_process 7 (fresh_server quiet)) \<noteq> Inl CoroutineExitException"
  by (simp add: examples handleRequest_def try_catch_def bnd_def invoke_def)

text \<open>
  C3. When \<open>processRequest\<close> throws anything but the cancellation signal,
  \<open>handleRequest\<close> calls \<open>handleError\<close>, then \<open>shutdownRequest\<close>, then
  \<open>closeRequest\<close> on the connection, in that order and nothing else, and returns
  normally: the failure does not leave the connection task. The three members called
  for the cleanup are taken to return.
\<close>

theorem handleRequest_failure_contained:
  assumes "processRequest q request (world s) = (Inl (OtherException k), u1)"
    and "handleError q request u1 = (Inr (), u2)"
    and "shutdownRequest q request u2 = (Inr (), u3)"
    and "closeRequest q request u3 = (Inr (), u4)"
  shows "handleRequest q request s =
           (Inr (), s\<lparr>calls := calls s @ [Call_processRequest request, Call_handleError request,
                                        Call_shutdownRequest request, Call_closeRequest request],
                     world := u4\<rparr>)"
  using assms by (rule handleRequest_failed)

theorem handleRequest_failure_contained_witness:
  "processRequest failing_in_process 7 quiet = (Inl (OtherException 1), quiet) \<and>
   handleRequest failing_in_process 7 (fresh_server quiet) =
     (Inr (), (fresh_server quiet)\<lparr>calls := [Call_processRequest 7, Call_handleError 7,
         Call_shutdownRequest 7, Call_closeRequest 7], world := quiet\<lparr>closed := [7]\<rparr>\<rparr>)"
proof -
  have thrown: "processRequest failing_in_process 7 (world (fresh_server quiet)) =
      (Inl (OtherException 1), quiet)"
    and handled: "handleError failing_in_process 7 quiet = (Inr (), quiet)"
    and shut: "shutdownRequest failing_in_process 7 quiet = (Inr (), quiet)"
    and close: "closeRequest failing_in_process 7 quiet = (Inr (), quiet\<lparr>closed := [7]\<rparr>)"
    by (simp_all add: examples)
  from handleRequest_failure_contained [OF thrown handled shut close] show ?thesis
    by (simp add: examples)
qed

text \<open>
  C2 as stated fails: with the members as \<open>BaseStreamServer\<close> defines them,
  \<open>processRequest\<close> returns normally, \<open>handleRequest\<close> calls nothing else, and
  connection 7 is never closed.
\<close>

theorem handleRequest_no_close_after_return:
  "calls (snd (handleRequest (BaseStreamServer loopback) 7 (fresh_server quiet))) =
     [Call_processRequest 7] \<and>
   count_list (calls (snd (handleRequest (BaseStreamServer loopback) 7 (fresh_server quiet))))
     (Call_closeRequest 7) = 0 \<and>
   closed (world (snd (handleRequest (BaseStreamServer loopback) 7 (fresh_server quiet)))) = []"
  by (simp add: examples handleRequest_def try_catch_def bnd_def invoke_def)

section \<open>Properties of the accept loop\<close>

lemma accept_iteration_rejected_calls:
  "getRequest q (world s) = (Inr (Some r), u1) \<Longrightarrow>
   verifyRequest q r u1 = (Inr False, u2) \<Longrightarrow>
   shutdownRequest q r u2 = (Inr (), u3) \<Longrightarrow>
   closeRequest q r u3 = (Inr (), u4) \<Longrightarrow>
   calls (snd (accept_iteration q s)) =
     calls s @ [Call_getRequest, Call_verifyRequest r, Call_shutdownRequest r,
                Call_closeRequest r, Call_serviceActions]
   \<and> operations (snd (accept_iteration q s)) = operations s"
  by (simp add: accept_iteration_def bnd_def invoke_def ret_def split: prod.splits sum.splits)

lemma accept_iteration_rejected:
  "getRequest q (world s) = (Inr (Some r), u1) \<Longrightarrow>
   verifyRequest q r u1 = (Inr False, u2) \<Longrightarrow>
   shutdownRequest q r u2 = (Inr (), u3) \<Longrightarrow>
   closeRequest q r u3 = (Inr (), u4) \<Longrightarrow>
   serviceActions q u4 = (Inr go_on, u5) \<Longrightarrow>
   accept_iteration q s =
     (Inr (if go_on then Next_iteration else Break),
      s\<lparr>calls := calls s @ [Call_getRequest, Call_verifyRequest r, Call_shutdownRequest r,
                            Call_closeRequest r, Call_serviceActions],
        world := u5\<rparr>)"
  by (simp add: accept_iteration_def bnd_def invoke_def ret_def)

text \<open>
  C2, as the code has it. The server calls \<open>closeRequest\<close> on a connection exactly once
  when \<open>processRequest\<close> throws (the cancellation signal or anything else) and exactly
  once when \<open>verifyRequest\<close> rejects the connection, the members called before it
  returning. When \<open>processRequest\<close> returns normally, \<open>handleRequest\<close> calls nothing
  more: closing the connection is then left to \<open>processRequest\<close>.
\<close>

theorem closeRequest_once_except_after_return:
  "(processRequest q r (world s) = (Inl e, u1) \<and>
    (case e of CoroutineExitException \<Rightarrow> u2 = u1
             | OtherException k \<Rightarrow> handleError q r u1 = (Inr (), u2)) \<and>
    shutdownRequest q r u2 = (Inr (), u3) \<and> closeRequest q r u3 = (Inr (), u4) \<longrightarrow>
      count_list (calls (snd (handleRequest q r s))) (Call_closeRequest r) =
        Suc (count_list (calls s) (Call_closeRequest r)))
   \<and> (getRequest q (world s) = (Inr (Some r), v1) \<and> verifyRequest q r v1 = (Inr False, v2) \<and>
       shutdownRequest q r v2 = (Inr (), v3) \<and> closeRequest q r v3 = (Inr (), v4) \<longrightarrow>
      count_list (calls (snd (accept_iteration q s))) (Call_closeRequest r) =
        Suc (count_list (calls s) (Call_closeRequest r)))
   \<and> (processRequest q r (world s) = (Inr (), u1) \<longrightarrow>
      calls (snd (handleRequest q r s)) = calls s @ [Call_processRequest r])"
proof (intro conjI impI)
  assume a: "processRequest q r (world s) = (Inl e, u1) \<and>
    (case e of CoroutineExitException \<Rightarrow> u2 = u1
             | OtherException k \<Rightarrow> handleError q r u1 = (Inr (), u2)) \<and>
    shutdownRequest q r u2 = (Inr (), u3) \<and> closeRequest q r u3 = (Inr (), u4)"
  show "count_list (calls (snd (handleRequest q r s))) (Call_closeRequest r) =
        Suc (count_list (calls s) (Call_closeRequest r))"
  proof (cases e)
    case CoroutineExitException
    with a have "processRequest q r (world s) = (Inl CoroutineExitException, u1)"
      "shutdownRequest q r u1 = (Inr (), u3)" "closeRequest q r u3 = (Inr (), u4)"
      by auto
    then show ?thesis by (simp add: handleRequest_cancelled)
  next
    case (OtherException k)
    with a have "processRequest q r (world s) = (Inl (OtherException k), u1)"
      "handleError q r u1 = (Inr (), u2)"
      "shutdownRequest q r u2 = (Inr (), u3)" "closeRequest q r u3 = (Inr (), u4)"
      by simp_all
    then show ?thesis by (simp add: handleRequest_failed)
  qed
next
  assume "getRequest q (world s) = (Inr (Some r), v1) \<and> verifyRequest q r v1 = (Inr False, v2) \<and>
       shutdownRequest q r v2 = (Inr (), v3) \<and> closeRequest q r v3 = (Inr (), v4)"
  then show "count_list (calls (snd (accept_iteration q s))) (Call_closeRequest r) =
        Suc (count_list (calls s) (Call_closeRequest r))"
    by (simp add: accept_iteration_rejected_calls [of q s r v1 v2 v3 v4])
next
  assume "processRequest q r (world s) = (Inr (), u1)"
  then show "calls (snd (handleRequest q r s)) = calls s @ [Call_processRequest r]"
    by (simp add: handleRequest_returned)
qed

theorem closeRequest_once_except_after_return_witness:
  "count_list (calls (snd (handleRequest cancelled_in_process 7 (fresh_server quiet))))
     (Call_closeRequest 7) = 1 \<and>
   count_list (calls (snd (handleRequest failing_in_process 7 (fresh_server quiet))))
     (Call_closeRequest 7) = 1 \<and>
   count_list (calls (snd (accept_iteration rejecting
       (fresh_server (quiet\<lparr>backlog := [Some 7]\<rparr>))))) (Call_closeRequest 7) = 1 \<and>
   calls (snd (handleRequest (BaseStreamServer loopback) 7 (fresh_server quiet))) =
     [Call_processRequest 7]"
proof -
  have cancelled: "count_list (calls (snd (handleRequest cancelled_in_process 7
      (fresh_server quiet)))) (Call_closeRequest 7) = 1"
    using closeRequest_once_except_after_return [where q = cancelled_in_process and r = 7
        and s = "fresh_server quiet" and e = CoroutineExitException and ?u1.0 = quiet
        and ?u2.0 = quiet and ?u3.0 = quiet and ?u4.0 = "quiet\<lparr>closed := [7]\<rparr>",
        THEN conjunct1]
    by (simp add: examples)
  have failed: "count_list (calls (snd (handleRequest failing_in_process 7
      (fresh_server quiet)))) (Call_closeRequest 7) = 1"
    using closeRequest_once_except_after_return [where q = failing_in_process and r = 7
        and s = "fresh_server quiet" and e = "OtherException 1" and ?u1.0 = quiet
        and ?u2.0 = quiet and ?u3.0 = quiet and ?u4.0 = "quiet\<lparr>closed := [7]\<rparr>",
        THEN conjunct1]
    by (simp add: examples)
  have rejected: "count_list (calls (snd (accept_iteration rejecting
      (fresh_server (quiet\<lparr>backlog := [Some 7]\<rparr>))))) (Call_closeRequest 7) = 1"
    using closeRequest_once_except_after_return [where q = rejecting and r = 7
        and s = "fresh_server (quiet\<lparr>backlog := [Some 7]\<rparr>)"
        and ?v1.0 = "quiet\<lparr>backlog := []\<rparr>" and ?v2.0 = "quiet\<lparr>backlog := []\<rparr>"
        and ?v3.0 = "quiet\<lparr>backlog := []\<rparr>"
        and ?v4.0 = "quiet\<lparr>backlog := [], closed := [7]\<rparr>",
        THEN conjunct2, THEN conjunct1]
    by (simp add: examples)
  have returned: "calls (snd (handleRequest (BaseStreamServer loopback) 7 (fresh_server quiet))) =
      [Call_processRequest 7]"
    using closeRequest_once_except_after_return [where q = "BaseStreamServer loopback" and r = 7
        and s = "fresh_server quiet" and ?u1.0 = quiet, THEN conjunct2, THEN conjunct2]
    by (simp add: examples)
  from cancelled failed rejected returned show ?thesis by simp
qed

text \<open>
  C7. When \<open>verifyRequest\<close> rejects an accepted connection, the pass through the loop
  calls \<open>shutdownRequest\<close> and then \<open>closeRequest\<close> on it, each once, spawns no task
  (the coroutine group is as before) and, \<open>serviceActions\<close> saying so as it does in
  \<open>BaseStreamServer\<close>, the loop goes on with its next pass. The members called are
  taken to return.
\<close>

theorem rejected_never_spawned:
  assumes "getRequest q (world s) = (Inr (Some r), u1)"
    and "verifyRequest q r u1 = (Inr False, u2)"
    and "shutdownRequest q r u2 = (Inr (), u3)"
    and "closeRequest q r u3 = (Inr (), u4)"
    and "serviceActions q u4 = (Inr True, u5)"
  shows "accept_loop (Suc n) q s =
           accept_loop n q
             (s\<lparr>calls := calls s @ [Call_getRequest, Call_verifyRequest r,
                                    Call_shutdownRequest r, Call_closeRequest r,
                                    Call_serviceActions],
                world := u5\<rparr>)"
  using accept_iteration_rejected [OF assms] by simp

theorem rejected_never_spawned_witness:
  "verifyRequest rejecting 7 (quiet\<lparr>backlog := [None]\<rparr>) = (Inr False, quiet\<lparr>backlog := [None]\<rparr>) \<and>
   accept_loop (Suc (Suc 0)) rejecting (fresh_server (quiet\<lparr>backlog := [Some 7, None]\<rparr>)) =
     (Some (Inr ()),
      (fresh_server (quiet\<lparr>backlog := [Some 7, None]\<rparr>))
        \<lparr>calls := [Call_getRequest, Call_verifyRequest 7, Call_shutdownRequest 7,
                   Call_closeRequest 7, Call_serviceActions, Call_getRequest],
         world := quiet\<lparr>backlog := [], closed := [7]\<rparr>\<rparr>)"
proof -
  let ?s = "fresh_server (quiet\<lparr>backlog := [Some 7, None]\<rparr>)"
  let ?u = "quiet\<lparr>backlog := [None]\<rparr>"
  let ?v = "quiet\<lparr>backlog := [None], closed := [7]\<rparr>"
  have accepted: "getRequest rejecting (world ?s) = (Inr (Some 7), ?u)"
    and rejected: "verifyRequest rejecting 7 ?u = (Inr False, ?u)"
    and shut: "shutdownRequest rejecting 7 ?u = (Inr (), ?u)"
    and close: "closeRequest rejecting 7 ?u = (Inr (), ?v)"
    and go_on: "serviceActions rejecting ?v = (Inr True, ?v)"
    by (simp_all add: examples)
  from rejected_never_spawned [OF accepted rejected shut close go_on, of "Suc 0"] rejected
  show ?thesis
    by (simp add: examples accept_iteration_def bnd_def invoke_def)
qed








section \<open>Properties of start and serveForever\<close>

text \<open>
  C4. While \<open>started\<close> is set or a task named \<open>serve\<close> is registered, \<open>start()\<close>
  returns true and changes nothing: no \<open>bind\<close>, no \<open>listen\<close>, no task spawned, the
  coroutine group as it was.
\<close>

theorem start_idempotent:
  "started s \<or> has (operations s) ''serve'' \<Longrightarrow> start sock s = (True, s)"
  by (simp add: start_def)

theorem start_idempotent_witness:
  "has (operations (snd (start loopback (fresh_server quiet)))) ''serve'' \<and>
   start loopback (snd (start loopback (fresh_server quiet))) =
     (True, snd (start loopback (fresh_server quiet)))"
proof -
  have registered: "has (operations (snd (start loopback (fresh_server quiet)))) ''serve''"
    by (simp add: examples start_def serverBind_def serverActivate_def spawnWithName_def has_def)
  then have "started (snd (start loopback (fresh_server quiet))) \<or>
      has (operations (snd (start loopback (fresh_server quiet)))) ''serve''"
    by simp
  from start_idempotent [OF this] registered show ?thesis by simp
qed

lemma serverBind_unfold:
  "serverBind sock s =
     (fst (serverBind sock s),
      s\<lparr>calls := calls s @ [Socket_bind (serverAddress s) (serverPort s)
                              (if allowReuseAddress s then ReuseAddressHint else DefaultForPlatform)],
        world := world (snd (serverBind sock s))\<rparr>)"
  by (simp add: serverBind_def Let_def split: prod.splits)

lemma serverActivate_unfold:
  "serverActivate sock s =
     (fst (serverActivate sock s),
      s\<lparr>calls := calls s @ [Socket_listen (requestQueueSize s)],
        world := world (snd (serverActivate sock s))\<rparr>)"
  by (simp add: serverActivate_def split: prod.splits)

lemma start_bind_failed:
  "\<not> started s \<Longrightarrow> \<not> has (operations s) ''serve'' \<Longrightarrow> serverBind sock s = (False, s1) \<Longrightarrow>
   start sock s = (False, serverClose sock s1)"
  by (simp add: start_def)

lemma start_listen_failed:
  "\<not> started s \<Longrightarrow> \<not> has (operations s) ''serve'' \<Longrightarrow> serverBind sock s = (True, s1) \<Longrightarrow>
   serverActivate sock s1 = (False, s2) \<Longrightarrow>
   start sock s = (False, serverClose sock s2)"
  by (simp add: start_def)

lemma serveForever_bind_failed:
  "serverBind sock s = (False, s1) \<Longrightarrow>
   serveForever n q sock s = (Some (Inr False), serverClose sock s1)"
  by (simp add: serveForever_def)

lemma serveForever_listen_failed:
  "serverBind sock s = (True, s1) \<Longrightarrow> serverActivate sock s1 = (False, s2) \<Longrightarrow>
   serveForever n q sock s = (Some (Inr False), serverClose sock s2)"
  by (simp add: serveForever_def)

text \<open>
  C5. On a server that was never started (\<open>started\<close> clear, \<open>stopped\<close> set, no task
  named \<open>serve\<close>), if \<open>bind\<close> fails, or \<open>bind\<close> succeeds and \<open>listen\<close> fails,
  then \<open>start()\<close> and the blocking \<open>serveForever()\<close> both return false and leave the
  same state: the calls made are \<open>bind\<close>, \<open>listen\<close> if \<open>bind\<close> succeeded, and
  last \<open>close\<close> of the listening socket; no task is spawned, \<open>started\<close> is still clear and
  \<open>stopped\<close> still set.
\<close>

theorem bind_or_listen_failure:
  assumes never_started: "\<not> started s" "stopped s" "\<not> has (operations s) ''serve''"
    and failure: "\<not> fst (serverBind sock s) \<or>
                  \<not> fst (serverActivate sock (snd (serverBind sock s)))"
  shows "fst (start sock s) = False
    \<and> fst (serveForever n q sock s) = Some (Inr False)
    \<and> snd (serveForever n q sock s) = snd (start sock s)
    \<and> calls (snd (start sock s)) =
        calls s @ Socket_bind (serverAddress s) (serverPort s)
                    (if allowReuseAddress s then ReuseAddressHint else DefaultForPlatform)
                # (if fst (serverBind sock s) then [Socket_listen (requestQueueSize s)] else [])
                @ [Socket_close]
    \<and> operations (snd (start sock s)) = operations s
    \<and> \<not> started (snd (start sock s)) \<and> stopped (snd (start sock s))"
proof (cases "fst (serverBind sock s)")
  case False
  obtain s1 where b: "serverBind sock s = (False, s1)"
    using False by (cases "serverBind sock s") simp
  have s1: "s1 = s\<lparr>calls := calls s @ [Socket_bind (serverAddress s) (serverPort s)
                              (if allowReuseAddress s then ReuseAddressHint else DefaultForPlatform)],
        world := world (snd (serverBind sock s))\<rparr>"
    using serverBind_unfold [of sock s] b by simp
  show ?thesis
    using never_started False
    by (simp add: start_bind_failed [OF never_started(1,3) b] serveForever_bind_failed [OF b]
        serverClose_def) (simp add: s1)
next
  case True
  obtain s1 where b: "serverBind sock s = (True, s1)"
    using True by (cases "serverBind sock s") simp
  have s1: "s1 = s\<lparr>calls := calls s @ [Socket_bind (serverAddress s) (serverPort s)
                              (if allowReuseAddress s then ReuseAddressHint else DefaultForPlatform)],
        world := world (snd (serverBind sock s))\<rparr>"
    using serverBind_unfold [of sock s] b by simp
  from failure True b obtain s2 where a: "serverActivate sock s1 = (False, s2)"
    by (cases "serverActivate sock s1") simp
  have s2: "s2 = s1\<lparr>calls := calls s1 @ [Socket_listen (requestQueueSize s1)],
        world := world (snd (serverActivate sock s1))\<rparr>"
    using serverActivate_unfold [of sock s1] a by simp
  show ?thesis
    using never_started True
    by (simp add: start_listen_failed [OF never_started(1,3) b a]
        serveForever_listen_failed [OF b a] serverClose_def) (simp add: s2 s1)
qed

theorem bind_or_listen_failure_witness:
  "start loopback (fresh_server (quiet\<lparr>listen_ok := False\<rparr>)) =
     (False, (fresh_server (quiet\<lparr>listen_ok := False\<rparr>))
        \<lparr>calls := [Socket_bind ''127.0.0.1'' 8080 ReuseAddressHint, Socket_listen 100,
                   Socket_close],
         world := quiet\<lparr>listen_ok := False, listening_closed := 1\<rparr>\<rparr>) \<and>
   fst (serveForever 5 (BaseStreamServer loopback) loopback
          (fresh_server (quiet\<lparr>listen_ok := False\<rparr>))) = Some (Inr False) \<and>
   fst (start loopback (fresh_server (quiet\<lparr>bind_ok := False\<rparr>))) = False \<and>
   calls (snd (start loopback (fresh_server (quiet\<lparr>bind_ok := False\<rparr>)))) =
     [Socket_bind ''127.0.0.1'' 8080 ReuseAddressHint, Socket_close]"
proof -
  let ?a = "fresh_server (quiet\<lparr>listen_ok := False\<rparr>)"
  let ?b = "fresh_server (quiet\<lparr>bind_ok := False\<rparr>)"
  have a: "\<not> started ?a" "stopped ?a" "\<not> has (operations ?a) ''serve''"
    "\<not> fst (serverBind loopback ?a) \<or>
     \<not> fst (serverActivate loopback (snd (serverBind loopback ?a)))"
    by (simp_all add: examples has_def serverBind_def serverActivate_def)
  have b: "\<not> started ?b" "stopped ?b" "\<not> has (operations ?b) ''serve''"
    "\<not> fst (serverBind loopback ?b) \<or>
     \<not> fst (serverActivate loopback (snd (serverBind loopback ?b)))"
    by (simp_all add: examples has_def serverBind_def serverActivate_def)
  show ?thesis
    using bind_or_listen_failure [OF a, of 5 "BaseStreamServer loopback"]
      bind_or_listen_failure [OF b, of 5 "BaseStreamServer loopback"]
    by (simp add: examples start_def has_def serverBind_def serverActivate_def serverClose_def)
qed

section \<open>Properties of the secure server's getRequest\<close>

lemma getRequest_retry:
  "socket_accept sock u = (Some r, u1) \<Longrightarrow> ssl_handshake sock r u1 = (False, u2) \<Longrightarrow>
   BaseSslStreamServer_getRequest sock u = BaseSslStreamServer_getRequest sock u2"
  by (subst BaseSslStreamServer_getRequest.simps) simp

lemma getRequest_secured:
  "socket_accept sock u = (Some r, u1) \<Longrightarrow> ssl_handshake sock r u1 = (True, u2) \<Longrightarrow>
   BaseSslStreamServer_getRequest sock u = Some (Some r, u2)"
  by (subst BaseSslStreamServer_getRequest.simps) simp

lemma getRequest_accept_failed:
  "socket_accept sock u = (None, u1) \<Longrightarrow>
   BaseSslStreamServer_getRequest sock u = Some (None, u1)"
  by (subst BaseSslStreamServer_getRequest.simps) simp

lemma getRequest_returns_only:
  assumes "BaseSslStreamServer_getRequest sock u = Some y"
  shows "case fst y of
           Some r \<Rightarrow> (\<exists>v v1. socket_accept sock v = (Some r, v1) \<and>
                               ssl_handshake sock r v1 = (True, snd y))
         | None \<Rightarrow> (\<exists>v. socket_accept sock v = (None, snd y))"
proof (rule BaseSslStreamServer_getRequest.raw_induct
    [where P = "\<lambda>sock u y. case fst y of
           Some r \<Rightarrow> (\<exists>v v1. socket_accept sock v = (Some r, v1) \<and>
                               ssl_handshake sock r v1 = (True, snd y))
         | None \<Rightarrow> (\<exists>v. socket_accept sock v = (None, snd y))", OF _ assms])
  fix getRequest :: "'a collaborators \<Rightarrow> 'a \<Rightarrow> (request option \<times> 'a) option"
  fix sock u y
  assume IH: "\<And>sock u y. getRequest sock u = Some y \<Longrightarrow>
      (case fst y of
           Some r \<Rightarrow> (\<exists>v v1. socket_accept sock v = (Some r, v1) \<and>
                               ssl_handshake sock r v1 = (True, snd y))
         | None \<Rightarrow> (\<exists>v. socket_accept sock v = (None, snd y)))"
  assume step: "(case socket_accept sock u of
        (request, u1) \<Rightarrow>
          (case request of
             Some r \<Rightarrow>
               (case ssl_handshake sock r u1 of
                  (ok, u2) \<Rightarrow>
                    if \<not> ok then getRequest sock u2
                    else Some (Some r, u2))
           | None \<Rightarrow> Some (None, u1))) = Some y"
  obtain request u1 where acc: "socket_accept sock u = (request, u1)"
    by (cases "socket_accept sock u")
  show "case fst y of
           Some r \<Rightarrow> (\<exists>v v1. socket_accept sock v = (Some r, v1) \<and>
                               ssl_handshake sock r v1 = (True, snd y))
         | None \<Rightarrow> (\<exists>v. socket_accept sock v = (None, snd y))"
  proof (cases request)
    case None
    with step acc have "fst y = None" "socket_accept sock u = (None, snd y)" by auto
    then show ?thesis by auto
  next
    case (Some r)
    obtain ok u2 where hs: "ssl_handshake sock r u1 = (ok, u2)"
      by (cases "ssl_handshake sock r u1")
    show ?thesis
    proof (cases ok)
      case True
      with step acc Some hs have "fst y = Some r" "socket_accept sock u = (Some r, u1)"
        "ssl_handshake sock r u1 = (True, snd y)" by auto
      then show ?thesis by auto
    next
      case False
      with step acc Some hs have "getRequest sock u2 = Some y" by simp
      then show ?thesis by (rule IH)
    qed
  qed
qed

text \<open>
  C8. In \<open>BaseSslStreamServer::getRequest\<close>, a raw connection whose handshake fails is
  dropped and the function goes on as if called anew on what follows: it accepts the
  next raw connection. A raw connection whose handshake succeeds is returned, and a
  failed \<open>accept\<close> returns the null pointer. Conversely, whatever the function returns
  comes from these two: a connection was accepted and its handshake succeeded, and the
  null pointer is a failed \<open>accept\<close>; no failed handshake is ever returned as either.
\<close>

theorem secure_getRequest_retries:
  "(socket_accept sock u = (Some r, u1) \<and> ssl_handshake sock r u1 = (False, u2) \<longrightarrow>
      BaseSslStreamServer_getRequest sock u = BaseSslStreamServer_getRequest sock u2)
   \<and> (socket_accept sock u = (Some r, u1) \<and> ssl_handshake sock r u1 = (True, u2) \<longrightarrow>
      BaseSslStreamServer_getRequest sock u = Some (Some r, u2))
   \<and> (socket_accept sock u = (None, u1) \<longrightarrow>
      BaseSslStreamServer_getRequest sock u = Some (None, u1))
   \<and> (BaseSslStreamServer_getRequest sock u = Some (Some r', u') \<longrightarrow>
      (\<exists>v v1. socket_accept sock v = (Some r', v1) \<and> ssl_handshake sock r' v1 = (True, u')))
   \<and> (BaseSslStreamServer_getRequest sock u = Some (None, u') \<longrightarrow>
      (\<exists>v. socket_accept sock v = (None, u')))"
  using getRequest_returns_only [of sock u "(Some r', u')"]
    getRequest_returns_only [of sock u "(None, u')"]
  by (simp add: getRequest_retry getRequest_secured getRequest_accept_failed)

theorem secure_getRequest_retries_witness:
  "BaseSslStreamServer_getRequest loopback
     (quiet\<lparr>backlog := [Some 1, Some 2, Some 3], bad_handshake := [1, 2]\<rparr>) =
   Some (Some 3, quiet\<lparr>backlog := [], bad_handshake := [1, 2]\<rparr>)"
proof -
  let ?w0 = "quiet\<lparr>backlog := [Some 1, Some 2, Some 3], bad_handshake := [1, 2]\<rparr>"
  let ?w1 = "quiet\<lparr>backlog := [Some 2, Some 3], bad_handshake := [1, 2]\<rparr>"
  let ?w2 = "quiet\<lparr>backlog := [Some 3], bad_handshake := [1, 2]\<rparr>"
  let ?w3 = "quiet\<lparr>backlog := [], bad_handshake := [1, 2]\<rparr>"
  have first: "BaseSslStreamServer_getRequest loopback ?w0 =
      BaseSslStreamServer_getRequest loopback ?w1"
    using secure_getRequest_retries [where sock = loopback and r = 1 and u = ?w0
        and ?u1.0 = ?w1 and ?u2.0 = ?w1, THEN conjunct1]
    by (simp add: examples)
  have second: "BaseSslStreamServer_getRequest loopback ?w1 =
      BaseSslStreamServer_getRequest loopback ?w2"
    using secure_getRequest_retries [where sock = loopback and r = 2 and u = ?w1
        and ?u1.0 = ?w2 and ?u2.0 = ?w2, THEN conjunct1]
    by (simp add: examples)
  have third: "BaseSslStreamServer_getRequest loopback ?w2 = Some (Some 3, ?w3)"
    using secure_getRequest_retries [where sock = loopback and r = 3 and u = ?w2
        and ?u1.0 = ?w3 and ?u2.0 = ?w3, THEN conjunct2, THEN conjunct1]
    by (simp add: examples)
  show ?thesis
    unfolding first second third ..
qed

section \<open>Properties of the request handler\<close>

lemma run_handle_failed:
  "setup_rh h (world s) = (Inr (), u1) \<Longrightarrow> handle_rh h u1 = (Inl e, u2) \<Longrightarrow>
   finish_rh h u2 = (r, u3) \<Longrightarrow>
   run h s = (r, s\<lparr>calls := calls s @ [Call_setup, Call_handle, Call_finish], world := u3\<rparr>)"
  by (simp add: run_def bnd_def try_catch_def invoke_def)

lemma run_finished:
  "setup_rh h (world s) = (Inr (), u1) \<Longrightarrow> handle_rh h u1 = (Inr (), u2) \<Longrightarrow>
   finish_rh h u2 = (Inr (), u3) \<Longrightarrow>
   run h s = (Inr (), s\<lparr>calls := calls s @ [Call_setup, Call_handle, Call_finish], world := u3\<rparr>)"
  by (simp add: run_def bnd_def try_catch_def invoke_def)

lemma run_finish_failed:
  "setup_rh h (world s) = (Inr (), u1) \<Longrightarrow> handle_rh h u1 = (Inr (), u2) \<Longrightarrow>
   finish_rh h u2 = (Inl e, u3) \<Longrightarrow> finish_rh h u3 = (r, u4) \<Longrightarrow>
   run h s = (r, s\<lparr>calls := calls s @ [Call_setup, Call_handle, Call_finish, Call_finish],
                    world := u4\<rparr>)"
  by (simp add: run_def bnd_def try_catch_def invoke_def)

text \<open>
  C9. Once \<open>setup()\<close> has returned, \<open>run()\<close> calls \<open>handle()\<close> and then
  \<open>finish()\<close>, whether \<open>handle()\<close> returned or threw. When \<open>handle()\<close> threw,
  these three calls are all, and \<open>run()\<close> ends as that \<open>finish()\<close> ended: it returns
  if \<open>finish()\<close> returned, so the failure of \<open>handle()\<close> stays inside, and it throws
  only what \<open>finish()\<close> threw. When \<open>handle()\<close> returned and \<open>finish()\<close> threw,
  \<open>finish()\<close> is called a second time and \<open>run()\<close> ends as that call ended.
\<close>

theorem run_finish_always:
  assumes "setup_rh h (world s) = (Inr (), u1)"
  shows "case handle_rh h u1 of
           (Inl e, u2) \<Rightarrow>
             run h s = (fst (finish_rh h u2),
                        s\<lparr>calls := calls s @ [Call_setup, Call_handle, Call_finish],
                          world := snd (finish_rh h u2)\<rparr>)
         | (Inr x, u2) \<Rightarrow>
             (case finish_rh h u2 of
                (Inr y, u3) \<Rightarrow>
                  run h s = (Inr (), s\<lparr>calls := calls s @ [Call_setup, Call_handle, Call_finish],
                                       world := u3\<rparr>)
              | (Inl e, u3) \<Rightarrow>
                  run h s = (fst (finish_rh h u3),
                             s\<lparr>calls := calls s @ [Call_setup, Call_handle, Call_finish,
                                                    Call_finish],
                               world := snd (finish_rh h u3)\<rparr>))"
proof (cases "handle_rh h u1")
  case (Pair r u2)
  show ?thesis
  proof (cases r)
    case (Inl e)
    with Pair assms show ?thesis
      by (simp add: run_handle_failed [of h s u1 e u2 "fst (finish_rh h u2)" "snd (finish_rh h u2)"])
  next
    case (Inr x)
    show ?thesis
    proof (cases "finish_rh h u2")
      case finish: (Pair r' u3)
      show ?thesis
      proof (cases r')
        case (Inl e)
        with finish Inr Pair assms show ?thesis
          by (simp add: run_finish_failed [of h s u1 u2 e u3 "fst (finish_rh h u3)"
                "snd (finish_rh h u3)"])
      next
        case inner: (Inr y)
        with finish Inr Pair assms show ?thesis
          by (simp add: run_finished [of h s u1 u2 u3])
      qed
    qed
  qed
qed

theorem run_finish_always_witness:
  "handle_rh (failing_handler 7) quiet = (Inl (OtherException 2), quiet) \<and>
   run (failing_handler 7) \<lparr>calls = [], world = quiet\<rparr> =
     (Inr (), \<lparr>calls = [Call_setup, Call_handle, Call_finish], world = quiet\<lparr>closed := [7]\<rparr>\<rparr>)"
proof -
  have "setup_rh (failing_handler 7) (world \<lparr>calls = [], world = quiet\<rparr>) = (Inr (), quiet)"
    by (simp add: examples)
  from run_finish_always [OF this] show ?thesis
    by (simp add: examples)
qed

section \<open>Properties of randomBytes\<close>

lemma length_resize: "length (resize junk b n) = nat (max 0 n)"
  by (simp add: resize_def Let_def)

lemma length_store: "length bytes \<le> length b \<Longrightarrow> length (store bytes b) = length b"
  by (simp add: store_def)

text \<open>
  C10. For every \<open>i\<close> that is not negative, \<open>randomBytes(i)\<close> returns an array of
  exactly \<open>i\<close> bytes, whatever \<open>RAND_bytes\<close> stores and whatever status it reports;
  the status is dropped: a generator that differs in its status only gives the same
  array.
\<close>

theorem randomBytes_length:
  "0 \<le> sint i \<Longrightarrow>
     length (randomBytes g i) = nat (sint i) \<and>
     randomBytes (g\<lparr>RAND_bytes := (\<lambda>num. (status, snd (RAND_bytes g num)))\<rparr>) i =
       randomBytes g i"
  by (simp add: randomBytes_def length_resize length_store split: prod.splits)

theorem randomBytes_length_witness:
  "(0::int) \<le> sint (4 :: 32 word) \<and>
   fst (RAND_bytes broken_generator 4) = 0 \<and>
   randomBytes broken_generator 4 = [0xAA, 0xAA, 0xAA, 0xAA] \<and>
   length (randomBytes broken_generator 4) = 4"
proof -
  have "(0::int) \<le> sint (4 :: 32 word)" by simp
  from randomBytes_length [OF this, of broken_generator 1] show ?thesis
    by (simp add: randomBytes_def broken_generator_def resize_def store_def upt_rec)
qed

end
